theory Spec2Isabelle
  imports Complex_Main
begin

section \<open>The verifier server: the handler of POST /api/verify\<close>

text \<open>
  The development embeds the handler \<^verbatim>\<open>app.post("/api/verify", ...)\<close> of
  \<^verbatim>\<open>src/index.js\<close> (lines 170 to 333): the validation of the request body, the
  evaluator request raced against a timer, the interpretation of the evaluator's
  answer, the call of the contract and the catch block.

  The handler is JavaScript, so the values it receives are JSON values and the
  operators it applies (\<^verbatim>\<open>!x\<close>, \<^verbatim>\<open>Number(x)\<close>, \<^verbatim>\<open>isNaN\<close>, \<^verbatim>\<open>typeof\<close>,
  \<^verbatim>\<open>trim\<close>, \<^verbatim>\<open>toUpperCase\<close>, \<^verbatim>\<open>includes\<close>, property access) are modelled
  with the language's semantics, exceptions included. The external services (the
  evaluator behind \<^verbatim>\<open>openai.chat.completions.create\<close>, the ledger behind
  \<^verbatim>\<open>contract.verifySuccess\<close> and \<^verbatim>\<open>tx.wait\<close>) are parameters of the model: an
  environment gives the outcome of each call. A run of the handler is the list of
  the effects it performs, in order. Console output is not modelled.
\<close>

subsection \<open>JavaScript values\<close>

text \<open>
  A number is NaN, an infinity or a finite value. A finite value is kept as the exact
  rational it denotes (every binary64 value is one). The rounding of a numeric text to
  the nearest binary64 value is not modelled: of the result of \<^verbatim>\<open>Number\<close> the
  handler only asks whether it is NaN.
\<close>

datatype js_number = NaN | PosInfinity | NegInfinity | Finite rat

text \<open>
  The body of a request and the answer of the evaluator are parsed JSON. An object keeps
  its members in the order they were parsed; a later member of the same name wins.
  \<open>JUndefined\<close> stands for a member that is absent.
\<close>

datatype js_value =
    JUndefined
  | JNull
  | JBool bool
  | JNumber js_number
  | JString string
  | JArray "js_value list"
  | JObject "(string \<times> js_value) list"

text \<open>
  A thrown \<^verbatim>\<open>Error\<close>: the two properties the catch block reads. The property
  \<^verbatim>\<open>error.response\<close> only feeds a console line.
\<close>

record js_error =
  message :: "string option"
  code :: "string option"

definition TypeError :: "string \<Rightarrow> js_error" where
  "TypeError m = \<lparr>message = Some m, code = None\<rparr>"

text \<open>\<^verbatim>\<open>!x\<close> is \<open>\<not> truthy x\<close>.\<close>

fun truthy :: "js_value \<Rightarrow> bool" where
  "truthy JUndefined = False"
| "truthy JNull = False"
| "truthy (JBool b) = b"
| "truthy (JNumber NaN) = False"
| "truthy (JNumber (Finite r)) = (r \<noteq> 0)"
| "truthy (JNumber PosInfinity) = True"
| "truthy (JNumber NegInfinity) = True"
| "truthy (JString s) = (s \<noteq> [])"
| "truthy (JArray xs) = True"
| "truthy (JObject kvs) = True"

datatype js_type = T_undefined | T_object | T_boolean | T_number | T_string

fun typeof :: "js_value \<Rightarrow> js_type" where
  "typeof JUndefined = T_undefined"
| "typeof JNull = T_object"
| "typeof (JBool b) = T_boolean"
| "typeof (JNumber n) = T_number"
| "typeof (JString s) = T_string"
| "typeof (JArray xs) = T_object"
| "typeof (JObject kvs) = T_object"

subsection \<open>Strings\<close>

text \<open>
  A string is a list of characters, one per code unit, and \<open>length\<close> is the
  \<^verbatim>\<open>length\<close> property. Characters are 8 bits wide here: white space is the ASCII
  white space that \<^verbatim>\<open>trim\<close> strips (TAB, LF, VT, FF, CR, SP) and
  \<^verbatim>\<open>toUpperCase\<close> acts on the letters a to z. The white space and the case
  mappings that Unicode has beyond ASCII are not modelled.
\<close>

definition is_space :: "char \<Rightarrow> bool" where
  "is_space c = (c \<in> set [CHR 0x09, CHR 0x0A, CHR 0x0B, CHR 0x0C, CHR 0x0D, CHR 0x20])"

definition trim :: "string \<Rightarrow> string" where
  "trim s = rev (dropWhile is_space (rev (dropWhile is_space s)))"

definition to_upper :: "char \<Rightarrow> char" where
  "to_upper c =
     (let n = (of_char c :: nat) in if 97 \<le> n \<and> n \<le> 122 then char_of (n - 32) else c)"

definition toUpperCase :: "string \<Rightarrow> string" where
  "toUpperCase s = map to_upper s"

fun startsWith :: "string \<Rightarrow> string \<Rightarrow> bool" where
  "startsWith s [] = True"
| "startsWith [] (p # ps) = False"
| "startsWith (c # cs) (p # ps) = (c = p \<and> startsWith cs ps)"

text \<open>\<^verbatim>\<open>s.includes(p)\<close>: \<open>p\<close> occurs in \<open>s\<close> at some position.\<close>

fun js_includes :: "string \<Rightarrow> string \<Rightarrow> bool" where
  "js_includes [] p = (p = [])"
| "js_includes (c # cs) p = (startsWith (c # cs) p \<or> js_includes cs p)"

subsection \<open>Conversion to a number\<close>

text \<open>
  \<^verbatim>\<open>Number(s)\<close> on a string follows the grammar of a string numeric literal:
  optional white space around either a decimal literal (an optional sign, then
  \<^verbatim>\<open>Infinity\<close> or digits with an optional fraction and an optional exponent) or an
  unsigned binary, octal or hexadecimal integer literal. White space alone is 0;
  anything else is NaN.
\<close>

definition is_digit :: "char \<Rightarrow> bool" where
  "is_digit c = (48 \<le> (of_char c :: nat) \<and> (of_char c :: nat) \<le> 57)"

definition digit_of :: "char \<Rightarrow> nat" where
  "digit_of c =
     (let n = (of_char c :: nat) in
      if 48 \<le> n \<and> n \<le> 57 then n - 48
      else if 97 \<le> n \<and> n \<le> 102 then n - 87
      else if 65 \<le> n \<and> n \<le> 70 then n - 55
      else 36)"

definition is_radix_digit :: "nat \<Rightarrow> char \<Rightarrow> bool" where
  "is_radix_digit b c = (digit_of c < b)"

definition radix_value :: "nat \<Rightarrow> string \<Rightarrow> nat" where
  "radix_value b ds = foldl (\<lambda>acc c. b * acc + digit_of c) 0 ds"

definition ExponentPart :: "string \<Rightarrow> int option" where
  "ExponentPart r =
     (case r of
        [] \<Rightarrow> Some 0
      | e # ds \<Rightarrow>
          if e = CHR ''e'' \<or> e = CHR ''E'' then
            (let (neg, ds') =
               (case ds of
                  [] \<Rightarrow> (False, [])
                | d # ds'' \<Rightarrow>
                    if d = CHR ''+'' then (False, ds'')
                    else if d = CHR ''-'' then (True, ds'')
                    else (False, ds))
             in if ds' \<noteq> [] \<and> list_all is_digit ds'
                then Some (if neg then - int (radix_value 10 ds') else int (radix_value 10 ds'))
                else None)
          else None)"

definition scale10 :: "rat \<Rightarrow> int \<Rightarrow> rat" where
  "scale10 m e = (if 0 \<le> e then m * 10 ^ nat e else m / 10 ^ nat (- e))"

definition StrUnsignedDecimalLiteral :: "string \<Rightarrow> js_number" where
  "StrUnsignedDecimalLiteral u =
     (if u = ''Infinity'' then PosInfinity
      else
        let ip = takeWhile is_digit u;
            r1 = dropWhile is_digit u;
            (fp, r2) =
              (case r1 of
                 [] \<Rightarrow> ([], [])
               | d # r \<Rightarrow>
                   if d = CHR ''.'' then (takeWhile is_digit r, dropWhile is_digit r)
                   else ([], r1))
        in if ip = [] \<and> fp = [] then NaN
           else
             (case ExponentPart r2 of
                None \<Rightarrow> NaN
              | Some e \<Rightarrow>
                  Finite (scale10 (of_nat (radix_value 10 ip)
                                   + of_nat (radix_value 10 fp) / 10 ^ length fp) e)))"

fun negate :: "js_number \<Rightarrow> js_number" where
  "negate NaN = NaN"
| "negate PosInfinity = NegInfinity"
| "negate NegInfinity = PosInfinity"
| "negate (Finite r) = Finite (- r)"

definition StrDecimalLiteral :: "string \<Rightarrow> js_number" where
  "StrDecimalLiteral u =
     (case u of
        [] \<Rightarrow> NaN
      | c # r \<Rightarrow>
          if c = CHR ''+'' then StrUnsignedDecimalLiteral r
          else if c = CHR ''-'' then negate (StrUnsignedDecimalLiteral r)
          else StrUnsignedDecimalLiteral u)"

definition radix_of_prefix :: "char \<Rightarrow> nat option" where
  "radix_of_prefix x =
     (if x = CHR ''x'' \<or> x = CHR ''X'' then Some 16
      else if x = CHR ''o'' \<or> x = CHR ''O'' then Some 8
      else if x = CHR ''b'' \<or> x = CHR ''B'' then Some 2
      else None)"

definition NonDecimalIntegerLiteral :: "string \<Rightarrow> js_number option" where
  "NonDecimalIntegerLiteral u =
     (case u of
        z # x # ds \<Rightarrow>
          if z = CHR ''0'' then
            (case radix_of_prefix x of
               None \<Rightarrow> None
             | Some b \<Rightarrow>
                 Some (if ds \<noteq> [] \<and> list_all (is_radix_digit b) ds
                       then Finite (of_nat (radix_value b ds)) else NaN))
          else None
      | _ \<Rightarrow> None)"

definition StringToNumber :: "string \<Rightarrow> js_number" where
  "StringToNumber s =
     (let t = trim s in
      if t = [] then Finite 0
      else (case NonDecimalIntegerLiteral t of
              Some n \<Rightarrow> n
            | None \<Rightarrow> StrDecimalLiteral t))"

text \<open>
  \<^verbatim>\<open>Number(v)\<close> on an object or an array first converts it to a primitive: it calls
  \<^verbatim>\<open>valueOf\<close>, which returns the object itself unless the object has a member of
  that name, and then \<^verbatim>\<open>toString\<close>. A JSON member is never callable, so an object
  with a member named \<^verbatim>\<open>toString\<close> has no usable method left and the conversion
  throws a TypeError; any other object converts to \<^verbatim>\<open>[object Object]\<close>, which is
  NaN. An array converts to the strings of its elements joined by commas, and converting
  an element that is an object with a \<^verbatim>\<open>toString\<close> member throws as well.
\<close>

definition has_own :: "(string \<times> js_value) list \<Rightarrow> string \<Rightarrow> bool" where
  "has_own kvs k = (map_of kvs k \<noteq> None)"

fun no_primitive :: "js_value \<Rightarrow> bool" where
  "no_primitive (JObject kvs) = has_own kvs ''toString''"
| "no_primitive (JArray xs) = list_ex no_primitive xs"
| "no_primitive v = False"

definition cannot_convert :: js_error where
  "cannot_convert = TypeError ''Cannot convert object to primitive value''"

text \<open>
  For an array that converts, the joined string is numeric only when the array is empty
  (the empty string, 0) or has one element: two or more elements put a comma in the
  string. With one element the string is that of the element: empty for
  \<^verbatim>\<open>null\<close>, \<^verbatim>\<open>true\<close> or \<^verbatim>\<open>false\<close> for a boolean, the text of a string, the
  join of a nested array, and for a number its decimal rendering, which reads back as
  the same number.
\<close>

fun ToNumber :: "js_value \<Rightarrow> js_error + js_number" where
  "ToNumber JUndefined = Inr NaN"
| "ToNumber JNull = Inr (Finite 0)"
| "ToNumber (JBool b) = Inr (Finite (if b then 1 else 0))"
| "ToNumber (JNumber n) = Inr n"
| "ToNumber (JString s) = Inr (StringToNumber s)"
| "ToNumber (JObject kvs) = (if has_own kvs ''toString'' then Inl cannot_convert else Inr NaN)"
| "ToNumber (JArray []) = Inr (Finite 0)"
| "ToNumber (JArray [x]) =
     (if no_primitive x then Inl cannot_convert
      else (case x of
              JUndefined \<Rightarrow> Inr (Finite 0)
            | JNull \<Rightarrow> Inr (Finite 0)
            | JBool b \<Rightarrow> Inr NaN
            | JNumber n \<Rightarrow> Inr n
            | JString s \<Rightarrow> Inr (StringToNumber s)
            | JArray ys \<Rightarrow> ToNumber x
            | JObject kvs \<Rightarrow> Inr NaN))"
| "ToNumber (JArray (x # y # zs)) =
     (if list_ex no_primitive (x # y # zs) then Inl cannot_convert else Inr NaN)"

definition isNaN :: "js_number \<Rightarrow> bool" where
  "isNaN n = (n = NaN)"

subsection \<open>Requests, responses and effects\<close>

text \<open>
  \<^verbatim>\<open>const { challengeId, title, imageUrl } = req.body\<close>: three JSON values, each
  \<open>JUndefined\<close> when the body has no such member.
\<close>

record request_body =
  challengeId :: js_value
  title :: js_value
  imageUrl :: js_value

text \<open>
  A response is a status and a JSON body: \<^verbatim>\<open>{ success: false, message }\<close> or
  \<^verbatim>\<open>{ success: true, txHash }\<close>. \<^verbatim>\<open>res.json\<close> without \<^verbatim>\<open>res.status\<close> sends
  status 200.
\<close>

datatype json_body = Failure string | Success string

record response =
  status :: nat
  body :: json_body

text \<open>
  The request sent to the evaluator: the model, the text part of the user message and
  the image reference. The system message is the same text in every request and is left
  out.
\<close>

record eval_request =
  model :: string
  user_text :: string
  image_url :: string

definition evaluator_request :: "string \<Rightarrow> string \<Rightarrow> eval_request" where
  \<open>evaluator_request t u =
     \<lparr>model = ''openai/gpt-4o'',
      user_text =
        ''You are a strict accountability judge. Does this image clearly verify that the user completed the task: "''
        @ t @ ''"? Answer strictly with YES or NO.'',
      image_url = u\<rparr>\<close>

text \<open>
  The evaluator's promise settles at some time (in milliseconds after the call) or never.
  A call to the ledger returns, throws or never settles.
\<close>

datatype 'a promise = Fulfils nat 'a | Rejects nat js_error | NeverSettles

datatype 'a outcome = Returns 'a | Throws js_error | Hangs

text \<open>The transaction \<^verbatim>\<open>tx\<close>: its hash and what \<^verbatim>\<open>await tx.wait()\<close> does.\<close>

record tx =
  hash :: string
  wait :: "unit outcome"

record env =
  create :: "eval_request \<Rightarrow> js_value promise"
  verifySuccess :: "js_value \<Rightarrow> nat \<Rightarrow> tx outcome"

text \<open>
  What a run of the handler does, in order: the request to the evaluator, the call of
  \<^verbatim>\<open>contract.verifySuccess\<close> with its gas limit, the return of \<^verbatim>\<open>tx.wait()\<close>,
  a response sent to the caller, and an exception that leaves the handler uncaught.
\<close>

datatype event =
    CallEvaluator eval_request
  | CallVerifySuccess js_value nat
  | TxIncluded string
  | Respond response
  | Uncaught js_error

subsection \<open>Validation (lines 174 to 200)\<close>

definition missing_fields :: response where
  "missing_fields =
     \<lparr>status = 400, body = Failure ''Missing required fields: challengeId, title, imageUrl''\<rparr>"

definition invalid_challengeId :: response where
  "invalid_challengeId =
     \<lparr>status = 400, body = Failure ''challengeId must be a valid number''\<rparr>"

definition invalid_title :: response where
  "invalid_title =
     \<lparr>status = 400, body = Failure ''title must be a string under 500 characters''\<rparr>"

definition invalid_imageUrl :: response where
  "invalid_imageUrl = \<lparr>status = 400, body = Failure ''imageUrl must be a valid URL''\<rparr>"

text \<open>
  Validation either sends a response and returns, or throws (\<^verbatim>\<open>Number\<close> is called
  outside the \<^verbatim>\<open>try\<close> block), or passes; when it passes, the title and the image
  reference are strings, which \<open>Passed\<close> carries (the last case of the definition
  cannot occur: both \<^verbatim>\<open>typeof\<close> tests have passed there).
\<close>

datatype validation = Rejected response | Raised js_error | Passed string string

text \<open>\<^verbatim>\<open>v.length\<close> of a value that is a string.\<close>

definition js_length :: "js_value \<Rightarrow> nat" where
  "js_length v = (case v of JString s \<Rightarrow> length s | _ \<Rightarrow> 0)"

definition validate :: "request_body \<Rightarrow> validation" where
  "validate req =
     (if \<not> truthy (challengeId req) \<or> \<not> truthy (title req) \<or> \<not> truthy (imageUrl req)
      then Rejected missing_fields
      else
        (case ToNumber (challengeId req) of
           Inl e \<Rightarrow> Raised e
         | Inr n \<Rightarrow>
             if isNaN n then Rejected invalid_challengeId
             else if typeof (title req) \<noteq> T_string \<or> js_length (title req) > 500
             then Rejected invalid_title
             else if typeof (imageUrl req) \<noteq> T_string then Rejected invalid_imageUrl
             else
               (case (title req, imageUrl req) of
                  (JString t, JString u) \<Rightarrow> Passed t u
                | _ \<Rightarrow> Rejected invalid_title)))"

subsection \<open>The catch block (lines 299 to 332)\<close>

definition timed_out :: response where
  "timed_out =
     \<lparr>status = 504, body = Failure ''AI verification timed out. Please try again.''\<rparr>"

definition already_verified :: response where
  "already_verified =
     \<lparr>status = 400, body = Failure ''Challenge may already be verified or does not exist.''\<rparr>"

definition rate_limited :: response where
  "rate_limited =
     \<lparr>status = 429,
      body = Failure ''AI service rate limited. Please try again in a few seconds.''\<rparr>"

definition process_failed :: response where
  "process_failed =
     \<lparr>status = 500, body = Failure ''Verification process failed. Please try again.''\<rparr>"

definition catch_block :: "js_error \<Rightarrow> response" where
  "catch_block error =
     (if message error = Some ''AI verification timeout'' then timed_out
      else if code error = Some ''CALL_EXCEPTION'' then already_verified
      else if (case message error of None \<Rightarrow> False | Some m \<Rightarrow> js_includes m ''rate limit'')
      then rate_limited
      else process_failed)"

subsection \<open>The deadline (lines 267 to 274)\<close>

definition AI_TIMEOUT_MS :: nat where
  "AI_TIMEOUT_MS = 60000"

definition timeout_error :: js_error where
  "timeout_error = \<lparr>message = Some ''AI verification timeout'', code = None\<rparr>"

text \<open>
  \<^verbatim>\<open>await Promise.race([aiPromise, timeoutPromise])\<close>: the promise that settles first
  decides. The timer rejects at \<open>AI_TIMEOUT_MS\<close>; the evaluator's promise wins when it
  has settled by then.
\<close>

definition race :: "js_value promise \<Rightarrow> js_error + js_value" where
  "race aiPromise =
     (case aiPromise of
        Fulfils t v \<Rightarrow> if t \<le> AI_TIMEOUT_MS then Inr v else Inl timeout_error
      | Rejects t e \<Rightarrow> if t \<le> AI_TIMEOUT_MS then Inl e else Inl timeout_error
      | NeverSettles \<Rightarrow> Inl timeout_error)"

subsection \<open>Reading the answer (lines 276 to 279)\<close>

text \<open>
  Property access \<^verbatim>\<open>v.p\<close> and \<^verbatim>\<open>v[0]\<close>, for the names the handler reads
  (\<^verbatim>\<open>choices\<close>, \<^verbatim>\<open>message\<close>, \<^verbatim>\<open>content\<close>), which no built-in prototype
  defines: a TypeError on \<^verbatim>\<open>undefined\<close> and \<^verbatim>\<open>null\<close>, the member of an object,
  the element of an array, the first character of a string, \<^verbatim>\<open>undefined\<close> otherwise.
\<close>

definition cannot_read :: "string \<Rightarrow> string \<Rightarrow> js_error" where
  "cannot_read v p =
     TypeError (''Cannot read properties of '' @ v @ '' (reading '' @ [CHR 0x27] @ p @ [CHR 0x27] @ '')'')"

definition member :: "(string \<times> js_value) list \<Rightarrow> string \<Rightarrow> js_value" where
  "member kvs k = (case map_of (rev kvs) k of None \<Rightarrow> JUndefined | Some v \<Rightarrow> v)"

fun get_prop :: "js_value \<Rightarrow> string \<Rightarrow> js_error + js_value" where
  "get_prop JUndefined p = Inl (cannot_read ''undefined'' p)"
| "get_prop JNull p = Inl (cannot_read ''null'' p)"
| "get_prop (JObject kvs) p = Inr (member kvs p)"
| "get_prop v p = Inr JUndefined"

fun get_index0 :: "js_value \<Rightarrow> js_error + js_value" where
  "get_index0 JUndefined = Inl (cannot_read ''undefined'' ''0'')"
| "get_index0 JNull = Inl (cannot_read ''null'' ''0'')"
| "get_index0 (JObject kvs) = Inr (member kvs ''0'')"
| "get_index0 (JArray xs) = Inr (case xs of [] \<Rightarrow> JUndefined | x # _ \<Rightarrow> x)"
| "get_index0 (JString s) = Inr (case s of [] \<Rightarrow> JUndefined | c # _ \<Rightarrow> JString [c])"
| "get_index0 v = Inr JUndefined"

text \<open>\<^verbatim>\<open>const answer = response.choices[0].message.content\<close>\<close>

definition read_answer :: "js_value \<Rightarrow> js_error + js_value" where
  "read_answer response =
     (case get_prop response ''choices'' of
        Inl e \<Rightarrow> Inl e
      | Inr choices \<Rightarrow>
          (case get_index0 choices of
             Inl e \<Rightarrow> Inl e
           | Inr choice \<Rightarrow>
               (case get_prop choice ''message'' of
                  Inl e \<Rightarrow> Inl e
                | Inr msg \<Rightarrow> get_prop msg ''content'')))"

text \<open>
  \<^verbatim>\<open>const isVerified = answer.trim().toUpperCase().includes("YES")\<close>, on a string.
\<close>

definition isVerified :: "string \<Rightarrow> bool" where
  "isVerified answer = js_includes (toUpperCase (trim answer)) ''YES''"

text \<open>
  Lines 277 and 279 on any value: an answer that is not a string throws a TypeError,
  either in the template literal of line 277 (an object with no primitive value) or at
  \<^verbatim>\<open>answer.trim()\<close>.
\<close>

definition verdict :: "js_value \<Rightarrow> js_error + bool" where
  "verdict answer =
     (case answer of
        JString s \<Rightarrow> Inr (isVerified s)
      | JUndefined \<Rightarrow> Inl (cannot_read ''undefined'' ''trim'')
      | JNull \<Rightarrow> Inl (cannot_read ''null'' ''trim'')
      | _ \<Rightarrow>
          if no_primitive answer then Inl cannot_convert
          else Inl (TypeError ''answer.trim is not a function''))"

subsection \<open>The pipeline (lines 205 to 298) and the handler\<close>

definition evidence_rejected :: response where
  "evidence_rejected =
     \<lparr>status = 400,
      body = Failure ''AI could not verify the objective based on the photo provided.''\<rparr>"

definition gasLimit :: nat where
  "gasLimit = 200000"

text \<open>
  Lines 292 to 298: one call of \<^verbatim>\<open>contract.verifySuccess\<close>, then
  \<^verbatim>\<open>await tx.wait()\<close>, then the response. An exception of either call goes to the
  catch block; a call that never settles leaves the handler suspended, and no response
  is sent.
\<close>

definition commit :: "env \<Rightarrow> js_value \<Rightarrow> event list" where
  "commit e cid =
     CallVerifySuccess cid gasLimit #
     (case verifySuccess e cid gasLimit of
        Throws err \<Rightarrow> [Respond (catch_block err)]
      | Hangs \<Rightarrow> []
      | Returns t \<Rightarrow>
          (case wait t of
             Throws err \<Rightarrow> [Respond (catch_block err)]
           | Hangs \<Rightarrow> []
           | Returns u \<Rightarrow>
               [TxIncluded (hash t), Respond \<lparr>status = 200, body = Success (hash t)\<rparr>]))"

definition judge :: "env \<Rightarrow> js_value \<Rightarrow> js_value \<Rightarrow> event list" where
  "judge e cid response =
     (case read_answer response of
        Inl err \<Rightarrow> [Respond (catch_block err)]
      | Inr answer \<Rightarrow>
          (case verdict answer of
             Inl err \<Rightarrow> [Respond (catch_block err)]
           | Inr approved \<Rightarrow>
               if \<not> approved then [Respond evidence_rejected] else commit e cid))"

definition pipeline :: "env \<Rightarrow> js_value \<Rightarrow> string \<Rightarrow> string \<Rightarrow> event list" where
  "pipeline e cid t u =
     CallEvaluator (evaluator_request t u) #
     (case race (create e (evaluator_request t u)) of
        Inl err \<Rightarrow> [Respond (catch_block err)]
      | Inr response \<Rightarrow> judge e cid response)"

definition verify_handler :: "env \<Rightarrow> request_body \<Rightarrow> event list" where
  "verify_handler e req =
     (case validate req of
        Rejected r \<Rightarrow> [Respond r]
      | Raised err \<Rightarrow> [Uncaught err]
      | Passed t u \<Rightarrow> pipeline e (challengeId req) t u)"

text \<open>The responses and the calls of a run.\<close>

fun responses :: "event list \<Rightarrow> response list" where
  "responses [] = []"
| "responses (Respond r # es) = r # responses es"
| "responses (ev # es) = responses es"

fun evaluator_calls :: "event list \<Rightarrow> eval_request list" where
  "evaluator_calls [] = []"
| "evaluator_calls (CallEvaluator q # es) = q # evaluator_calls es"
| "evaluator_calls (ev # es) = evaluator_calls es"

fun ledger_calls :: "event list \<Rightarrow> js_value list" where
  "ledger_calls [] = []"
| "ledger_calls (CallVerifySuccess c g # es) = c # ledger_calls es"
| "ledger_calls (ev # es) = ledger_calls es"

section \<open>The notions of the specification\<close>

text \<open>
  The specification speaks of a verdict, of a deadline and of categories of outcome. The
  definitions of this section say what these mean on the model; they follow the
  specification's words and are compared with the code below.
\<close>

subsection \<open>The token YES, in any case\<close>

definition spells_yes :: "char \<Rightarrow> char \<Rightarrow> char \<Rightarrow> bool" where
  "spells_yes a b c =
     ((a = CHR ''y'' \<or> a = CHR ''Y'') \<and> (b = CHR ''e'' \<or> b = CHR ''E'')
      \<and> (c = CHR ''s'' \<or> c = CHR ''S''))"

text \<open>The text contains the token YES: three consecutive characters spell it.\<close>

definition spec_contains_yes :: "string \<Rightarrow> bool" where
  "spec_contains_yes s = (\<exists>pre a b c post. s = pre @ [a, b, c] @ post \<and> spells_yes a b c)"

text \<open>The verdict on an evaluator response: approved when its answer is read as YES.\<close>

definition approved :: "js_value \<Rightarrow> bool" where
  "approved response =
     (case read_answer response of
        Inl err \<Rightarrow> False
      | Inr answer \<Rightarrow> verdict answer = Inr True)"

subsection \<open>The deadline\<close>

text \<open>A promise has settled by time \<open>d\<close>.\<close>

definition settled_by :: "nat \<Rightarrow> 'a promise \<Rightarrow> bool" where
  "settled_by d p =
     (case p of Fulfils t v \<Rightarrow> t \<le> d | Rejects t err \<Rightarrow> t \<le> d | NeverSettles \<Rightarrow> False)"

subsection \<open>The ledger's answer\<close>


text \<open>Both calls to the ledger settle: each returns or throws.\<close>

definition ledger_settles :: "env \<Rightarrow> js_value \<Rightarrow> bool" where
  "ledger_settles e cid =
     (case verifySuccess e cid gasLimit of
        Throws x \<Rightarrow> True
      | Hangs \<Rightarrow> False
      | Returns t \<Rightarrow> wait t \<noteq> Hangs)"

subsection \<open>The categories of outcome\<close>

datatype category =
    ValidationFailed
  | EvidenceRejected
  | EvaluatorTimeout
  | EvaluatorRateLimited
  | AlreadyFinalized
  | InternalFailure

text \<open>The responses the validation sends, and those the catch block sends.\<close>

definition validation_failures :: "response list" where
  "validation_failures = [missing_fields, invalid_challengeId, invalid_title, invalid_imageUrl]"

definition caught_failures :: "response list" where
  "caught_failures = [timed_out, already_verified, rate_limited, process_failed]"

text \<open>
  The handler sends no category name; a category is recognised by the status and the
  message of the response.
\<close>

definition category_of :: "response \<Rightarrow> category option" where
  "category_of r =
     (if r \<in> set validation_failures then Some ValidationFailed
      else if r = evidence_rejected then Some EvidenceRejected
      else if r = timed_out then Some EvaluatorTimeout
      else if r = rate_limited then Some EvaluatorRateLimited
      else if r = already_verified then Some AlreadyFinalized
      else if r = process_failed then Some InternalFailure
      else None)"

text \<open>A response is the success result or a classified error.\<close>

definition classified :: "response \<Rightarrow> bool" where
  "classified r =
     ((\<exists>h. r = \<lparr>status = 200, body = Success h\<rparr>) \<or> category_of r \<noteq> None)"

subsection \<open>Sample inputs\<close>

definition sample_request :: request_body where
  "sample_request =
     \<lparr>challengeId = JString ''42'', title = JString ''Run 5km'',
      imageUrl = JString ''data:image/jpeg;base64,/9j/4AAQ''\<rparr>"

text \<open>A chat completion whose first choice has the given content.\<close>

definition completion :: "js_value \<Rightarrow> js_value" where
  "completion content =
     JObject [(''id'', JString ''gen-1''),
              (''choices'',
               JArray [JObject [(''index'', JNumber (Finite 0)),
                                (''message'',
                                 JObject [(''role'', JString ''assistant''),
                                          (''content'', content)])]])]"

definition sample_tx :: tx where
  "sample_tx = \<lparr>hash = ''0x1234567890abcdef'', wait = Returns ()\<rparr>"

text \<open>An environment whose evaluator and ledger answer every call the same way.\<close>

definition env_of :: "js_value promise \<Rightarrow> tx outcome \<Rightarrow> env" where
  "env_of p l = \<lparr>create = (\<lambda>q. p), verifySuccess = (\<lambda>c g. l)\<rparr>"

definition says :: "string \<Rightarrow> js_value promise" where
  "says answer = Fulfils 1500 (completion (JString answer))"

text \<open>
  A request whose challengeId is the JSON object \<^verbatim>\<open>{"valueOf": 0, "toString": 0}\<close>.
\<close>

definition object_id_request :: request_body where
  "object_id_request =
     \<lparr>challengeId = JObject [(''valueOf'', JNumber (Finite 0)), (''toString'', JNumber (Finite 0))],
      title = JString ''Run 5km'',
      imageUrl = JString ''data:image/jpeg;base64,/9j/4AAQ''\<rparr>"

text \<open>The same with the number 7 as its title.\<close>

definition object_id_number_title_request :: request_body where
  "object_id_number_title_request =
     \<lparr>challengeId = JObject [(''valueOf'', JNumber (Finite 0)), (''toString'', JNumber (Finite 0))],
      title = JNumber (Finite 7),
      imageUrl = JString ''data:image/jpeg;base64,/9j/4AAQ''\<rparr>"

text \<open>A request for challenge 0, the identifier given as a number.\<close>

definition zero_id_request :: request_body where
  "zero_id_request =
     \<lparr>challengeId = JNumber (Finite 0), title = JString ''Run 5km'',
      imageUrl = JString ''data:image/jpeg;base64,/9j/4AAQ''\<rparr>"

text \<open>Errors as the network and the ledger client throw them.\<close>

definition econnrefused :: js_error where
  "econnrefused = \<lparr>message = Some ''connect ECONNREFUSED 127.0.0.1:8545'', code = Some ''ECONNREFUSED''\<rparr>"

definition insufficient_funds :: js_error where
  "insufficient_funds =
     \<lparr>message = Some ''insufficient funds for intrinsic transaction cost'',
      code = Some ''INSUFFICIENT_FUNDS''\<rparr>"



text \<open>A request whose image reference is no URL at all.\<close>

definition not_a_url_request :: request_body where
  "not_a_url_request =
     \<lparr>challengeId = JNumber (Finite 42), title = JString ''Run 5km'',
      imageUrl = JString ''not a url''\<rparr>"

section \<open>Facts about the operators\<close>

subsection \<open>Strings\<close>




lemma char_eq_nat: "(c = d) = ((of_char c :: nat) = of_char d)"
  by simp






subsection \<open>Conversion to a number, on examples\<close>

lemma StringToNumber_examples:
  "StringToNumber ''42'' = Finite 42"
  "StringToNumber '' 42 '' = Finite 42"
  "StringToNumber '''' = Finite 0"
  "StringToNumber ''0'' = Finite 0"
  "StringToNumber ''-7'' = Finite (- 7)"
  "StringToNumber ''1.5'' = Finite (3 / 2)"
  "StringToNumber ''1e3'' = Finite 1000"
  "StringToNumber ''0x1F'' = Finite 31"
  "StringToNumber ''Infinity'' = PosInfinity"
  "StringToNumber ''abc'' = NaN"
  "StringToNumber ''12abc'' = NaN"
  "StringToNumber ''1,2'' = NaN"
  "StringToNumber ''-0x1F'' = NaN"
  by code_simp+

lemma ToNumber_examples:
  "ToNumber (JArray []) = Inr (Finite 0)"
  "ToNumber (JArray [JNumber (Finite 5)]) = Inr (Finite 5)"
  "ToNumber (JArray [JString ''7'']) = Inr (Finite 7)"
  "ToNumber (JArray [JNumber (Finite 1), JNumber (Finite 2)]) = Inr NaN"
  "ToNumber (JBool True) = Inr (Finite 1)"
  "ToNumber (JObject []) = Inr NaN"
  "ToNumber (JObject [(''valueOf'', JNumber (Finite 0))]) = Inr NaN"
  "ToNumber (JObject [(''toString'', JNumber (Finite 0))]) = Inl cannot_convert"
  "ToNumber (JArray [JObject [(''toString'', JNull)]]) = Inl cannot_convert"
  by code_simp+

subsection \<open>Validation\<close>

lemma typeof_string_iff: "typeof v = T_string \<longleftrightarrow> (\<exists>s. v = JString s)"
  by (cases v) auto

lemma validate_Passed_iff:
  "validate req = Passed t u \<longleftrightarrow>
     truthy (challengeId req) \<and> (\<exists>n. ToNumber (challengeId req) = Inr n \<and> \<not> isNaN n)
     \<and> title req = JString t \<and> t \<noteq> [] \<and> length t \<le> 500
     \<and> imageUrl req = JString u \<and> u \<noteq> []"
  unfolding validate_def
  by (cases "title req"; cases "imageUrl req"; cases "ToNumber (challengeId req)")
     (auto simp: js_length_def)

lemma validate_Raised_iff:
  "validate req = Raised err \<longleftrightarrow>
     truthy (challengeId req) \<and> truthy (title req) \<and> truthy (imageUrl req)
     \<and> ToNumber (challengeId req) = Inl err"
  unfolding validate_def
  by (cases "title req"; cases "imageUrl req"; cases "ToNumber (challengeId req)")
     (auto simp: js_length_def)

lemma validate_Rejected:
  "validate req = Rejected r \<Longrightarrow> r \<in> set validation_failures"
  unfolding validate_def validation_failures_def
  by (cases "title req"; cases "imageUrl req"; cases "ToNumber (challengeId req)")
     (auto simp: js_length_def split: if_splits)

lemma ToNumber_Inl: "ToNumber v = Inl err \<Longrightarrow> err = cannot_convert \<and> no_primitive v"
  by (induction v rule: ToNumber.induct) (auto split: if_splits js_value.splits)

lemma ToNumber_no_primitive: "no_primitive v \<Longrightarrow> ToNumber v = Inl cannot_convert"
  by (induction v rule: ToNumber.induct) (auto split: if_splits js_value.splits)

subsection \<open>The calls of a run\<close>

lemma ledger_calls_commit: "ledger_calls (commit e cid) = [cid]"
  by (simp add: commit_def split: outcome.splits)

lemma ledger_calls_judge:
  "ledger_calls (judge e cid response) = (if approved response then [cid] else [])"
  by (auto simp: judge_def approved_def ledger_calls_commit split: sum.splits)

lemma ledger_calls_pipeline:
  "ledger_calls (pipeline e cid t u) =
     (case race (create e (evaluator_request t u)) of
        Inl err \<Rightarrow> []
      | Inr response \<Rightarrow> if approved response then [cid] else [])"
  by (simp add: pipeline_def ledger_calls_judge split: sum.splits)

lemma ledger_calls_handler:
  "ledger_calls (verify_handler e req) =
     (case validate req of
        Passed t u \<Rightarrow> ledger_calls (pipeline e (challengeId req) t u)
      | _ \<Rightarrow> [])"
  by (simp add: verify_handler_def split: validation.splits)

subsection \<open>The sample inputs\<close>

lemma sample_request_passes:
  "validate sample_request = Passed ''Run 5km'' ''data:image/jpeg;base64,/9j/4AAQ''"
  by code_simp

lemma challengeId_sample_request: "challengeId sample_request = JString ''42''"
  by (simp add: sample_request_def)

lemma read_answer_completion: "read_answer (completion c) = Inr c"
  by (simp add: read_answer_def completion_def member_def)

lemma race_says: "race (create (env_of (says a) l) q) = Inr (completion (JString a))"
  by (simp add: env_of_def says_def race_def AI_TIMEOUT_MS_def)

lemma verdict_NO: "verdict (JString ''NO, the image shows 2.1 km'') = Inr False"
  by code_simp

lemma verdict_YES: "verdict (JString ''YES'') = Inr True"
  by code_simp

subsection \<open>The verdict\<close>

lemma spells_yes_not_space:
  "spells_yes a b c \<Longrightarrow> \<not> is_space a \<and> \<not> is_space c"
  by (auto simp: spells_yes_def is_space_def)

lemma spec_contains_yes_dropWhile: "spec_contains_yes (dropWhile is_space s) \<longleftrightarrow> spec_contains_yes s"
proof
  assume "spec_contains_yes (dropWhile is_space s)"
  then obtain pre a b c post
    where d: "dropWhile is_space s = pre @ [a, b, c] @ post" and y: "spells_yes a b c"
    unfolding spec_contains_yes_def by blast
  have "s = takeWhile is_space s @ dropWhile is_space s" by simp
  with d have "s = (takeWhile is_space s @ pre) @ [a, b, c] @ post" by simp
  with y show "spec_contains_yes s" unfolding spec_contains_yes_def by blast
next
  assume "spec_contains_yes s"
  then obtain pre a b c post where s: "s = pre @ [a, b, c] @ post" and y: "spells_yes a b c"
    unfolding spec_contains_yes_def by blast
  from y have "\<not> is_space a" by (simp add: spells_yes_not_space)
  then have "dropWhile is_space (pre @ a # [b, c] @ post) = dropWhile is_space pre @ a # [b, c] @ post"
    by (rule dropWhile_append3)
  with s have "dropWhile is_space s = dropWhile is_space pre @ [a, b, c] @ post" by simp
  with y show "spec_contains_yes (dropWhile is_space s)" unfolding spec_contains_yes_def by blast
qed

lemma spec_contains_yes_drop_trailing:
  "spec_contains_yes (rev (dropWhile is_space (rev s))) \<longleftrightarrow> spec_contains_yes s"
proof
  assume "spec_contains_yes (rev (dropWhile is_space (rev s)))"
  then obtain pre a b c post
    where d: "rev (dropWhile is_space (rev s)) = pre @ [a, b, c] @ post" and y: "spells_yes a b c"
    unfolding spec_contains_yes_def by blast
  have "rev s = takeWhile is_space (rev s) @ dropWhile is_space (rev s)" by simp
  then have "s = rev (dropWhile is_space (rev s)) @ rev (takeWhile is_space (rev s))"
    by (metis rev_append rev_rev_ident)
  with d have "s = pre @ [a, b, c] @ (post @ rev (takeWhile is_space (rev s)))" by simp
  with y show "spec_contains_yes s" unfolding spec_contains_yes_def by blast
next
  assume "spec_contains_yes s"
  then obtain pre a b c post where s: "s = pre @ [a, b, c] @ post" and y: "spells_yes a b c"
    unfolding spec_contains_yes_def by blast
  from y have "\<not> is_space c" by (simp add: spells_yes_not_space)
  then have "dropWhile is_space (rev post @ c # [b, a] @ rev pre)
               = dropWhile is_space (rev post) @ c # [b, a] @ rev pre"
    by (rule dropWhile_append3)
  with s have "rev (dropWhile is_space (rev s))
                 = pre @ [a, b, c] @ rev (dropWhile is_space (rev post))"
    by simp
  with y show "spec_contains_yes (rev (dropWhile is_space (rev s)))"
    unfolding spec_contains_yes_def by blast
qed

lemma spec_contains_yes_trim: "spec_contains_yes (trim s) \<longleftrightarrow> spec_contains_yes s"
  by (simp add: trim_def spec_contains_yes_drop_trailing spec_contains_yes_dropWhile)


lemma category_of_evidence_rejected: "category_of evidence_rejected = Some EvidenceRejected"
  by (simp add: category_of_def validation_failures_def evidence_rejected_def
        missing_fields_def invalid_challengeId_def invalid_title_def invalid_imageUrl_def)

lemma category_of_process_failed: "category_of process_failed = Some InternalFailure"
  by (simp add: category_of_def validation_failures_def evidence_rejected_def
        missing_fields_def invalid_challengeId_def invalid_title_def invalid_imageUrl_def
        process_failed_def timed_out_def rate_limited_def already_verified_def)

lemma trim_examples:
  "trim '''' = ''''" "trim ''NO'' = ''NO''" "trim ''MAYBE'' = ''MAYBE''" "trim '' yes '' = ''yes''"
  by code_simp+



subsection \<open>Categories\<close>

lemma category_of_timed_out: "category_of timed_out = Some EvaluatorTimeout"
  by (simp add: category_of_def validation_failures_def evidence_rejected_def
      missing_fields_def invalid_challengeId_def invalid_title_def invalid_imageUrl_def
      timed_out_def)

lemma category_of_rate_limited: "category_of rate_limited = Some EvaluatorRateLimited"
  by (simp add: category_of_def validation_failures_def evidence_rejected_def
      missing_fields_def invalid_challengeId_def invalid_title_def invalid_imageUrl_def
      timed_out_def rate_limited_def)

lemma category_of_already_verified: "category_of already_verified = Some AlreadyFinalized"
  by (simp add: category_of_def validation_failures_def evidence_rejected_def
      missing_fields_def invalid_challengeId_def invalid_title_def invalid_imageUrl_def
      timed_out_def rate_limited_def already_verified_def)

lemma category_of_validation_failure:
  "r \<in> set validation_failures \<Longrightarrow> category_of r = Some ValidationFailed"
  by (simp add: category_of_def)

lemma catch_block_cases:
  "catch_block err = timed_out \<or> catch_block err = already_verified
   \<or> catch_block err = rate_limited \<or> catch_block err = process_failed"
  by (simp add: catch_block_def)

lemma caught_failures_distinct: "distinct (map category_of caught_failures)"
  by (simp add: caught_failures_def category_of_timed_out category_of_rate_limited
      category_of_already_verified category_of_process_failed)

lemma catch_block_caught: "catch_block err \<in> set caught_failures"
  using catch_block_cases [of err] by (auto simp: caught_failures_def)

lemma classified_catch_block: "classified (catch_block err)"
  using catch_block_cases [of err]
  by (auto simp: classified_def category_of_timed_out category_of_rate_limited
      category_of_already_verified category_of_process_failed)

lemma classified_evidence_rejected: "classified evidence_rejected"
  by (simp add: classified_def category_of_evidence_rejected)

lemma classified_validation_failure: "r \<in> set validation_failures \<Longrightarrow> classified r"
  by (simp add: classified_def category_of_validation_failure)

subsection \<open>The race and the commit\<close>

lemma race_unsettled: "\<not> settled_by AI_TIMEOUT_MS p \<Longrightarrow> race p = Inl timeout_error"
  by (cases p) (auto simp: settled_by_def race_def)

lemma catch_block_timeout_error: "catch_block timeout_error = timed_out"
  by (simp add: catch_block_def timeout_error_def)

lemma approved_run:
  assumes "validate req = Passed t u"
    and "race (create e (evaluator_request t u)) = Inr response"
    and "read_answer response = Inr answer" and "verdict answer = Inr True"
  shows "verify_handler e req
           = CallEvaluator (evaluator_request t u) # commit e (challengeId req)"
  using assms by (simp add: verify_handler_def pipeline_def judge_def)

lemma approved_and_included_run:
  assumes "validate req = Passed t u"
    and "race (create e (evaluator_request t u)) = Inr response"
    and "read_answer response = Inr answer" and "verdict answer = Inr True"
    and "verifySuccess e (challengeId req) gasLimit = Returns tx" and "wait tx = Returns ()"
  shows "verify_handler e req
           = [CallEvaluator (evaluator_request t u),
              CallVerifySuccess (challengeId req) gasLimit,
              TxIncluded (hash tx),
              Respond \<lparr>status = 200, body = Success (hash tx)\<rparr>]"
proof -
  have "verify_handler e req
          = CallEvaluator (evaluator_request t u) # commit e (challengeId req)"
    using assms(1-4) by (rule approved_run)
  with assms(5,6) show ?thesis by (simp add: commit_def)
qed


lemma responses_commit_success:
  assumes "r \<in> set (responses (commit e cid))" and "body r = Success h"
  shows "\<exists>t. verifySuccess e cid gasLimit = Returns t \<and> wait t = Returns () \<and> hash t = h
             \<and> r = \<lparr>status = 200, body = Success h\<rparr>"
proof -
  have nf: "body (catch_block err) \<noteq> Success h" for err
    using catch_block_cases [of err]
    by (auto simp: timed_out_def already_verified_def rate_limited_def process_failed_def)
  show ?thesis
    using assms nf
    by (auto simp: commit_def split: outcome.splits)
qed

lemma evaluator_calls_commit: "evaluator_calls (commit e cid) = []"
  by (simp add: commit_def split: outcome.splits)

lemma evaluator_calls_judge: "evaluator_calls (judge e cid response) = []"
  by (simp add: judge_def evaluator_calls_commit split: sum.splits)

lemma evaluator_calls_pipeline: "evaluator_calls (pipeline e cid t u) = [evaluator_request t u]"
  by (simp add: pipeline_def evaluator_calls_judge split: sum.splits)

lemma evaluator_calls_handler:
  "evaluator_calls (verify_handler e req) =
     (case validate req of Passed t u \<Rightarrow> [evaluator_request t u] | _ \<Rightarrow> [])"
  by (simp add: verify_handler_def evaluator_calls_pipeline split: validation.splits)

lemma catch_block_econnrefused: "catch_block econnrefused = process_failed"
  by code_simp

lemma catch_block_insufficient_funds: "catch_block insufficient_funds = process_failed"
  by code_simp

lemma validate_object_id_request: "validate object_id_request = Raised cannot_convert"
  by code_simp

lemma validate_object_id_number_title_request:
  "validate object_id_number_title_request = Raised cannot_convert"
  by code_simp

subsection \<open>An evaluator response without a verdict\<close>

text \<open>
  Every TypeError thrown while the answer is read ends in the generic response of the
  catch block: a response of the evaluator that has no \<^verbatim>\<open>choices\<close>, no first
  choice, no \<^verbatim>\<open>message\<close>, or a content that is not a string.
\<close>

lemma catch_block_TypeError:
  assumes "\<not> js_includes m ''rate limit''" and "m \<noteq> ''AI verification timeout''"
  shows "catch_block (TypeError m) = process_failed"
  using assms by (simp add: catch_block_def TypeError_def)

lemma catch_block_cannot_read:
  assumes "v = ''undefined'' \<or> v = ''null''"
    and "p = ''choices'' \<or> p = ''0'' \<or> p = ''message'' \<or> p = ''content'' \<or> p = ''trim''"
  shows "catch_block (cannot_read v p) = process_failed"
proof -
  from assms have "(v, p) \<in> set (List.product [''undefined'', ''null'']
      [''choices'', ''0'', ''message'', ''content'', ''trim''])"
    by auto
  moreover have "\<forall>(v, p) \<in> set (List.product [''undefined'', ''null'']
      [''choices'', ''0'', ''message'', ''content'', ''trim'']).
      catch_block (cannot_read v p) = process_failed"
    by code_simp
  ultimately show ?thesis by blast
qed

lemma catch_block_cannot_convert: "catch_block cannot_convert = process_failed"
  by code_simp

lemma catch_block_not_a_function:
  "catch_block (TypeError ''answer.trim is not a function'') = process_failed"
  by code_simp

lemma get_prop_Inl:
  "get_prop v p = Inl err \<Longrightarrow> err = cannot_read ''undefined'' p \<or> err = cannot_read ''null'' p"
  by (cases v) auto

lemma get_index0_Inl:
  "get_index0 v = Inl err \<Longrightarrow>
     err = cannot_read ''undefined'' ''0'' \<or> err = cannot_read ''null'' ''0''"
  by (cases v) auto

lemma read_answer_Inl:
  assumes "read_answer response = Inl err"
  shows "catch_block err = process_failed"
proof -
  from assms have "\<exists>v p. err = cannot_read v p \<and> (v = ''undefined'' \<or> v = ''null'')
      \<and> (p = ''choices'' \<or> p = ''0'' \<or> p = ''message'' \<or> p = ''content'')"
    by (auto simp: read_answer_def split: sum.splits dest!: get_prop_Inl get_index0_Inl)
  then show ?thesis by (auto simp: catch_block_cannot_read)
qed

lemma verdict_not_text:
  assumes "typeof answer \<noteq> T_string"
  shows "\<exists>err. verdict answer = Inl err \<and> catch_block err = process_failed"
  using assms
  by (cases answer)
     (auto simp: verdict_def catch_block_cannot_read catch_block_cannot_convert
        catch_block_not_a_function)

lemma no_verdict_internal_failure:
  assumes "validate req = Passed t u"
    and "race (create e (evaluator_request t u)) = Inr response"
    and "read_answer response = Inl err
         \<or> (\<exists>answer. read_answer response = Inr answer \<and> typeof answer \<noteq> T_string)"
  shows "verify_handler e req = [CallEvaluator (evaluator_request t u), Respond process_failed]"
  using assms(3)
proof
  assume "read_answer response = Inl err"
  with assms(1,2) show ?thesis
    by (simp add: verify_handler_def pipeline_def judge_def read_answer_Inl)
next
  assume "\<exists>answer. read_answer response = Inr answer \<and> typeof answer \<noteq> T_string"
  then obtain answer where a: "read_answer response = Inr answer" "typeof answer \<noteq> T_string"
    by blast
  from verdict_not_text [OF a(2)] obtain err'
    where "verdict answer = Inl err'" "catch_block err' = process_failed"
    by blast
  with assms(1,2) a(1) show ?thesis
    by (simp add: verify_handler_def pipeline_def judge_def)
qed

section \<open>The claims\<close>

subsection \<open>C1: the ledger is called only after approval\<close>

text \<open>
  C1. In every run of the handler, \<^verbatim>\<open>contract.verifySuccess\<close> is called only if the
  request passed validation, the evaluator's response won the race and its answer was
  read as approved. And whenever the answer is read as not approved, the run sends the
  one response of the category EvidenceRejected and never calls the ledger.
\<close>

theorem ledger_only_after_approval:
  "(ledger_calls (verify_handler e req) \<noteq> [] \<longrightarrow>
      (\<exists>t u response answer.
         validate req = Passed t u
         \<and> race (create e (evaluator_request t u)) = Inr response
         \<and> read_answer response = Inr answer \<and> verdict answer = Inr True))
   \<and> (validate req = Passed t u
        \<and> race (create e (evaluator_request t u)) = Inr response
        \<and> read_answer response = Inr answer \<and> verdict answer = Inr False \<longrightarrow>
        responses (verify_handler e req) = [evidence_rejected]
        \<and> category_of evidence_rejected = Some EvidenceRejected
        \<and> ledger_calls (verify_handler e req) = [])"
proof (intro conjI impI)
  assume called: "ledger_calls (verify_handler e req) \<noteq> []"
  then obtain t u where v: "validate req = Passed t u"
    by (auto simp: ledger_calls_handler split: validation.splits)
  with called obtain response
    where r: "race (create e (evaluator_request t u)) = Inr response" and a: "approved response"
    by (auto simp: ledger_calls_handler ledger_calls_pipeline split: sum.splits if_splits)
  from a obtain answer where "read_answer response = Inr answer" "verdict answer = Inr True"
    by (auto simp: approved_def split: sum.splits)
  with v r show "\<exists>t u response answer.
         validate req = Passed t u
         \<and> race (create e (evaluator_request t u)) = Inr response
         \<and> read_answer response = Inr answer \<and> verdict answer = Inr True"
    by blast
next
  assume h: "validate req = Passed t u
        \<and> race (create e (evaluator_request t u)) = Inr response
        \<and> read_answer response = Inr answer \<and> verdict answer = Inr False"
  then have run:
    "verify_handler e req = [CallEvaluator (evaluator_request t u), Respond evidence_rejected]"
    by (simp add: verify_handler_def pipeline_def judge_def)
  show "responses (verify_handler e req) = [evidence_rejected]" by (simp add: run)
  show "ledger_calls (verify_handler e req) = []" by (simp add: run)
next
  show "category_of evidence_rejected = Some EvidenceRejected"
    by (rule category_of_evidence_rejected)
qed

theorem ledger_only_after_approval_witness:
  "responses (verify_handler
       (env_of (says ''NO, the image shows 2.1 km'') (Returns sample_tx)) sample_request)
     = [evidence_rejected]
   \<and> ledger_calls (verify_handler
       (env_of (says ''NO, the image shows 2.1 km'') (Returns sample_tx)) sample_request) = []
   \<and> ledger_calls (verify_handler (env_of (says ''YES'') (Returns sample_tx)) sample_request)
     = [JString ''42'']
   \<and> (\<exists>t u response answer.
         validate sample_request = Passed t u
         \<and> race (create (env_of (says ''YES'') (Returns sample_tx)) (evaluator_request t u))
           = Inr response
         \<and> read_answer response = Inr answer \<and> verdict answer = Inr True)"
proof -
  let ?no = "env_of (says ''NO, the image shows 2.1 km'') (Returns sample_tx)"
  let ?yes = "env_of (says ''YES'') (Returns sample_tx)"
  have c: "ledger_calls (verify_handler ?yes sample_request) = [JString ''42'']"
    by (simp add: ledger_calls_handler sample_request_passes ledger_calls_pipeline race_says
        approved_def read_answer_completion verdict_YES challengeId_sample_request)
  from ledger_only_after_approval [of ?no sample_request "''Run 5km''"
      "''data:image/jpeg;base64,/9j/4AAQ''" "completion (JString ''NO, the image shows 2.1 km'')"
      "JString ''NO, the image shows 2.1 km''"]
    sample_request_passes race_says read_answer_completion verdict_NO
  have "responses (verify_handler ?no sample_request) = [evidence_rejected]
        \<and> ledger_calls (verify_handler ?no sample_request) = []"
    by simp
  moreover from ledger_only_after_approval [of ?yes sample_request] c
  have "\<exists>t u response answer.
         validate sample_request = Passed t u
         \<and> race (create ?yes (evaluator_request t u)) = Inr response
         \<and> read_answer response = Inr answer \<and> verdict answer = Inr True"
    by simp
  ultimately show ?thesis using c by simp
qed

subsection \<open>C2: the verdict interpreter\<close>




subsection \<open>C3: the deadline\<close>

text \<open>
  C3. Whenever the evaluator's promise has not settled by the deadline of 60000
  milliseconds (it settles later, or never), the timer wins the race: the race rejects
  with the timer's error, and the run sends exactly one response, status 504 with the
  fixed timeout message, which is the category EvaluatorTimeout and no other.
\<close>

theorem deadline_gives_timeout:
  assumes "validate req = Passed t u"
    and "\<not> settled_by AI_TIMEOUT_MS (create e (evaluator_request t u))"
  shows "race (create e (evaluator_request t u)) = Inl timeout_error
    \<and> verify_handler e req = [CallEvaluator (evaluator_request t u), Respond timed_out]
    \<and> timed_out
        = \<lparr>status = 504, body = Failure ''AI verification timed out. Please try again.''\<rparr>
    \<and> category_of timed_out = Some EvaluatorTimeout"
proof (intro conjI)
  show r: "race (create e (evaluator_request t u)) = Inl timeout_error"
    using assms(2) by (rule race_unsettled)
  show "verify_handler e req = [CallEvaluator (evaluator_request t u), Respond timed_out]"
    using assms(1) r by (simp add: verify_handler_def pipeline_def catch_block_timeout_error)
  show "timed_out
        = \<lparr>status = 504, body = Failure ''AI verification timed out. Please try again.''\<rparr>"
    by (simp add: timed_out_def)
  show "category_of timed_out = Some EvaluatorTimeout"
    by (rule category_of_timed_out)
qed

theorem deadline_gives_timeout_witness:
  "verify_handler (env_of (Fulfils 60001 (completion (JString ''YES''))) (Returns sample_tx))
     sample_request
   = [CallEvaluator (evaluator_request ''Run 5km'' ''data:image/jpeg;base64,/9j/4AAQ''),
      Respond timed_out]
   \<and> verify_handler (env_of NeverSettles (Returns sample_tx)) sample_request
   = [CallEvaluator (evaluator_request ''Run 5km'' ''data:image/jpeg;base64,/9j/4AAQ''),
      Respond timed_out]"
proof -
  have a: "\<not> settled_by AI_TIMEOUT_MS
             (create (env_of (Fulfils 60001 (completion (JString ''YES''))) (Returns sample_tx))
                (evaluator_request ''Run 5km'' ''data:image/jpeg;base64,/9j/4AAQ''))"
    by (simp add: settled_by_def env_of_def AI_TIMEOUT_MS_def)
  have b: "\<not> settled_by AI_TIMEOUT_MS
             (create (env_of NeverSettles (Returns sample_tx))
                (evaluator_request ''Run 5km'' ''data:image/jpeg;base64,/9j/4AAQ''))"
    by (simp add: settled_by_def env_of_def)
  from deadline_gives_timeout [OF sample_request_passes a]
    deadline_gives_timeout [OF sample_request_passes b]
  show ?thesis by simp
qed

subsection \<open>C4: every run answers once\<close>

text \<open>
  When converting the challengeId raises no exception and the calls to the ledger settle,
  a run sends exactly one response, and it is the success result or a classified error.
\<close>

lemma commit_answers_once:
  assumes "ledger_settles e cid"
  shows "\<exists>r. responses (commit e cid) = [r] \<and> classified r"
proof (cases "verifySuccess e cid gasLimit")
  case (Returns t)
  show ?thesis
  proof (cases "wait t")
    case (Returns x)
    with \<open>verifySuccess e cid gasLimit = Returns t\<close> show ?thesis
      by (simp add: commit_def classified_def)
  next
    case (Throws err)
    with \<open>verifySuccess e cid gasLimit = Returns t\<close> show ?thesis
      by (simp add: commit_def classified_catch_block)
  next
    case Hangs
    with \<open>verifySuccess e cid gasLimit = Returns t\<close> assms show ?thesis
      by (simp add: ledger_settles_def)
  qed
next
  case (Throws err)
  then show ?thesis by (simp add: commit_def classified_catch_block)
next
  case Hangs
  with assms show ?thesis by (simp add: ledger_settles_def)
qed

lemma judge_answers_once:
  assumes "ledger_settles e cid"
  shows "\<exists>r. responses (judge e cid response) = [r] \<and> classified r"
  using commit_answers_once [OF assms]
  by (auto simp: judge_def classified_catch_block classified_evidence_rejected
      split: sum.splits)

lemma pipeline_answers_once:
  assumes "ledger_settles e cid"
  shows "\<exists>r. responses (pipeline e cid t u) = [r] \<and> classified r"
  using judge_answers_once [OF assms]
  by (auto simp: pipeline_def classified_catch_block split: sum.splits)

lemma handler_answers_once:
  assumes "\<not> no_primitive (challengeId req)" and "ledger_settles e (challengeId req)"
  shows "\<exists>r. responses (verify_handler e req) = [r] \<and> classified r"
proof (cases "validate req")
  case (Rejected r)
  then show ?thesis
    by (auto simp: verify_handler_def dest: validate_Rejected classified_validation_failure)
next
  case (Raised err)
  then have "no_primitive (challengeId req)"
    by (auto simp: validate_Raised_iff dest: ToNumber_Inl)
  with assms(1) show ?thesis by simp
next
  case (Passed t u)
  then show ?thesis
    using pipeline_answers_once [OF assms(2)] by (simp add: verify_handler_def)
qed

text \<open>
  C4, at the request whose challengeId is the object
  \<^verbatim>\<open>{"valueOf": 0, "toString": 0}\<close>: the object is truthy, so the first test
  passes; \<^verbatim>\<open>Number(challengeId)\<close> then finds no method to call and throws a
  TypeError on line 181, outside the \<^verbatim>\<open>try\<close> block. The exception leaves the
  handler and the run sends no response.
\<close>

theorem object_id_no_response:
  "verify_handler e object_id_request = [Uncaught cannot_convert]
   \<and> responses (verify_handler e object_id_request) = []"
  by (simp add: verify_handler_def validate_object_id_request)

subsection \<open>C5: the caller sees a fixed message\<close>

text \<open>
  C5. The response of the catch block is one of four fixed responses, whatever the error
  it caught; and two errors whose responses fall in the same category get the same
  response: the message is determined by the category, not by the error.
\<close>

theorem caught_failure_is_fixed:
  "catch_block err \<in> set caught_failures
   \<and> (category_of (catch_block err) = category_of (catch_block err') \<longrightarrow>
        catch_block err = catch_block err')"
proof (intro conjI impI)
  show "catch_block err \<in> set caught_failures" by (rule catch_block_caught)
next
  assume eq: "category_of (catch_block err) = category_of (catch_block err')"
  have "inj_on category_of (set caught_failures)"
    using caught_failures_distinct by (simp add: distinct_map)
  then show "catch_block err = catch_block err'"
    using eq catch_block_caught [of err] catch_block_caught [of err']
    by (auto dest: inj_onD)
qed

theorem caught_failure_is_fixed_witness:
  "category_of (catch_block econnrefused) = category_of (catch_block insufficient_funds)
   \<and> catch_block econnrefused = catch_block insufficient_funds
   \<and> body (catch_block econnrefused) = Failure ''Verification process failed. Please try again.''"
proof -
  have c: "category_of (catch_block econnrefused) = category_of (catch_block insufficient_funds)"
    by (simp add: catch_block_econnrefused catch_block_insufficient_funds)
  with caught_failure_is_fixed [of econnrefused insufficient_funds]
  have "catch_block econnrefused = catch_block insufficient_funds" by simp
  with c show ?thesis by (simp add: catch_block_insufficient_funds process_failed_def)
qed

subsection \<open>C6: a revert of the ledger\<close>




subsection \<open>C7: the title\<close>

text \<open>
  A request whose title is not a string, or is longer than 500 characters, never reaches
  the evaluator. When converting the challengeId raises no exception, it is answered by
  one response of the validation, with status 400. A title of exactly 500 characters
  passes, and one of 501 does not.
\<close>

lemma bad_title_never_evaluated:
  assumes "typeof (title req) \<noteq> T_string \<or> js_length (title req) > 500"
  shows "evaluator_calls (verify_handler e req) = []"
proof -
  show ?thesis
  proof (cases "validate req")
    case (Passed t u)
    with assms show ?thesis by (auto simp: validate_Passed_iff js_length_def)
  qed (simp_all add: evaluator_calls_handler)
qed

lemma bad_title_rejected:
  assumes "typeof (title req) \<noteq> T_string \<or> js_length (title req) > 500"
    and "\<not> no_primitive (challengeId req)"
  shows "\<exists>r. verify_handler e req = [Respond r] \<and> r \<in> set validation_failures
             \<and> status r = 400 \<and> category_of r = Some ValidationFailed"
proof (cases "validate req")
  case (Rejected r)
  from validate_Rejected [OF this] have "status r = 400"
    by (auto simp: validation_failures_def missing_fields_def invalid_challengeId_def
        invalid_title_def invalid_imageUrl_def)
  with Rejected show ?thesis
    by (auto simp: verify_handler_def category_of_validation_failure dest: validate_Rejected)
next
  case (Raised err)
  then have "no_primitive (challengeId req)"
    by (auto simp: validate_Raised_iff dest: ToNumber_Inl)
  with assms(2) show ?thesis by simp
next
  case (Passed t u)
  with assms(1) show ?thesis by (auto simp: validate_Passed_iff js_length_def)
qed

lemma title_of_500_passes:
  assumes "title req = JString t" and "length t = 500"
    and "truthy (challengeId req)" and "ToNumber (challengeId req) = Inr n" and "\<not> isNaN n"
    and "imageUrl req = JString u" and "u \<noteq> []"
  shows "validate req = Passed t u"
  using assms by (auto simp: validate_Passed_iff)

lemma title_of_501_rejected:
  assumes "title req = JString t" and "length t = 501"
    and "truthy (challengeId req)" and "ToNumber (challengeId req) = Inr n" and "\<not> isNaN n"
    and "truthy (imageUrl req)"
  shows "validate req = Rejected invalid_title"
  using assms by (auto simp: validate_def js_length_def)

text \<open>
  C7, at the request whose title is the number 7 and whose challengeId is the object
  \<^verbatim>\<open>{"valueOf": 0, "toString": 0}\<close>: the title is not a string, and yet the run
  sends no response of the validation, since \<^verbatim>\<open>Number(challengeId)\<close> throws
  before the title is tested.
\<close>

theorem bad_title_no_response:
  "typeof (title object_id_number_title_request) \<noteq> T_string
   \<and> verify_handler e object_id_number_title_request = [Uncaught cannot_convert]
   \<and> responses (verify_handler e object_id_number_title_request) = []"
proof -
  have "typeof (title object_id_number_title_request) \<noteq> T_string"
    by (simp add: object_id_number_title_request_def)
  moreover have "verify_handler e object_id_number_title_request = [Uncaught cannot_convert]"
    by (simp add: verify_handler_def validate_object_id_number_title_request)
  ultimately show ?thesis by simp
qed

subsection \<open>C8: the challengeId\<close>

text \<open>
  An integer other than 0 given as a number passes validation, and so does every
  non-empty text of decimal digits, the text \<^verbatim>\<open>0\<close> included.
\<close>

lemma integer_number_accepted:
  assumes "challengeId req = JNumber (Finite (of_int k))" and "k \<noteq> 0"
    and "title req = JString t" and "t \<noteq> []" and "length t \<le> 500"
    and "imageUrl req = JString u" and "u \<noteq> []"
  shows "validate req = Passed t u"
  using assms by (simp add: validate_Passed_iff isNaN_def)

lemma is_digit_not_space: "is_digit c \<Longrightarrow> \<not> is_space c"
  unfolding is_digit_def is_space_def
  by (auto simp: char_eq_nat [of c])

lemma trim_digits:
  assumes "list_all is_digit ds"
  shows "trim ds = ds"
proof (cases ds)
  case Nil
  then show ?thesis by (simp add: trim_def)
next
  case (Cons d ds')
  with assms have "\<not> is_space (hd ds)" by (simp add: is_digit_not_space)
  then have a: "dropWhile is_space ds = ds" by (simp add: dropWhile_eq_self_iff)
  from assms Cons have "is_digit (last ds)"
    by (metis last_in_set list.discI list_all_iff)
  moreover from Cons have "hd (rev ds) = last ds" by (simp only: hd_rev)
  ultimately have "\<not> is_space (hd (rev ds))" by (simp add: is_digit_not_space)
  then have "dropWhile is_space (rev ds) = rev ds" by (simp add: dropWhile_eq_self_iff)
  with a show ?thesis by (simp add: trim_def)
qed

lemma is_digit_no_prefix: "is_digit c \<Longrightarrow> radix_of_prefix c = None"
  unfolding is_digit_def radix_of_prefix_def
  by (auto simp: char_eq_nat [of c])

lemma is_digit_no_sign: "is_digit c \<Longrightarrow> c \<noteq> CHR ''+'' \<and> c \<noteq> CHR ''-'' \<and> c \<noteq> CHR ''I''"
  unfolding is_digit_def
  by (auto simp: char_eq_nat [of c])

lemma digits_are_numeric:
  assumes "ds \<noteq> []" and "list_all is_digit ds"
  shows "StringToNumber ds = Finite (of_nat (radix_value 10 ds))"
proof -
  from assms obtain d ds' where ds: "ds = d # ds'" and d: "is_digit d"
    by (cases ds) auto
  have nd: "NonDecimalIntegerLiteral ds = None"
  proof (cases ds')
    case Nil
    with ds show ?thesis by (simp add: NonDecimalIntegerLiteral_def)
  next
    case (Cons x xs)
    with assms ds have "is_digit x" by simp
    then have "radix_of_prefix x = None" by (rule is_digit_no_prefix)
    with ds Cons show ?thesis by (simp add: NonDecimalIntegerLiteral_def)
  qed
  have tw: "takeWhile is_digit ds = ds" "dropWhile is_digit ds = []"
    using assms(2) by (simp_all add: list_all_iff)
  have ni: "ds \<noteq> ''Infinity''" using ds d is_digit_no_sign by auto
  have "StrUnsignedDecimalLiteral ds = Finite (of_nat (radix_value 10 ds))"
    using assms(1) ni
    by (simp add: StrUnsignedDecimalLiteral_def tw ExponentPart_def scale10_def radix_value_def)
  then have "StrDecimalLiteral ds = Finite (of_nat (radix_value 10 ds))"
    using ds d is_digit_no_sign by (simp add: StrDecimalLiteral_def)
  then show ?thesis
    using assms(1) nd by (simp add: StringToNumber_def trim_digits [OF assms(2)])
qed

lemma digit_text_accepted:
  assumes "challengeId req = JString ds" and "ds \<noteq> []" and "list_all is_digit ds"
    and "title req = JString t" and "t \<noteq> []" and "length t \<le> 500"
    and "imageUrl req = JString u" and "u \<noteq> []"
  shows "validate req = Passed t u"
  using assms by (simp add: validate_Passed_iff isNaN_def digits_are_numeric)

text \<open>
  C8, at the request whose challengeId is the number 0: the test of line 174 takes the
  number 0 for a missing field, and the run answers that required fields are missing.
\<close>

theorem zero_id_rejected_as_missing:
  "verify_handler e zero_id_request = [Respond missing_fields]
   \<and> body missing_fields = Failure ''Missing required fields: challengeId, title, imageUrl''"
  by (simp add: verify_handler_def validate_def zero_id_request_def missing_fields_def)

subsection \<open>C9: success only after inclusion\<close>

text \<open>
  C9. Whenever a run sends a response with a success body, the run is exactly: the
  request to the evaluator, one call of \<^verbatim>\<open>contract.verifySuccess\<close>, the return of
  \<^verbatim>\<open>tx.wait()\<close>, and then the response with status 200, which carries the hash of
  the transaction that call returned. No success is sent before the inclusion, and none
  when \<^verbatim>\<open>tx.wait()\<close> throws or never settles.
\<close>

theorem success_only_after_inclusion:
  assumes "r \<in> set (responses (verify_handler e req))" and "body r = Success h"
  shows "\<exists>t u tx.
           verifySuccess e (challengeId req) gasLimit = Returns tx
           \<and> wait tx = Returns () \<and> hash tx = h
           \<and> verify_handler e req
               = [CallEvaluator (evaluator_request t u),
                  CallVerifySuccess (challengeId req) gasLimit,
                  TxIncluded h,
                  Respond \<lparr>status = 200, body = Success h\<rparr>]"
proof -
  have nf: "body (catch_block err) \<noteq> Success h" for err
    using catch_block_cases [of err]
    by (auto simp: timed_out_def already_verified_def rate_limited_def process_failed_def)
  have nv: "body x \<noteq> Success h" if "validate req = Rejected x" for x
    using validate_Rejected [OF that]
    by (auto simp: validation_failures_def missing_fields_def invalid_challengeId_def
        invalid_title_def invalid_imageUrl_def)
  from assms nv obtain t u where v: "validate req = Passed t u"
    by (cases "validate req") (auto simp: verify_handler_def)
  from assms v nf obtain response
    where rc: "race (create e (evaluator_request t u)) = Inr response"
    by (cases "race (create e (evaluator_request t u))")
       (auto simp: verify_handler_def pipeline_def)
  from assms v rc nf obtain answer where ra: "read_answer response = Inr answer"
    by (cases "read_answer response") (auto simp: verify_handler_def pipeline_def judge_def)
  from assms v rc ra nf have vd: "verdict answer = Inr True"
    by (cases "verdict answer")
       (auto simp: verify_handler_def pipeline_def judge_def evidence_rejected_def
             split: if_splits)
  have run: "verify_handler e req
           = CallEvaluator (evaluator_request t u) # commit e (challengeId req)"
    using v rc ra vd by (rule approved_run)
  with assms have "r \<in> set (responses (commit e (challengeId req)))" by simp
  from responses_commit_success [OF this assms(2)] obtain tx
    where tx: "verifySuccess e (challengeId req) gasLimit = Returns tx"
      "wait tx = Returns ()" "hash tx = h"
    by blast
  then have "verify_handler e req
               = [CallEvaluator (evaluator_request t u),
                  CallVerifySuccess (challengeId req) gasLimit,
                  TxIncluded h,
                  Respond \<lparr>status = 200, body = Success h\<rparr>]"
    by (simp add: run commit_def)
  with tx show ?thesis by blast
qed

theorem success_only_after_inclusion_witness:
  "\<exists>t u tx.
     verifySuccess (env_of (says ''YES'') (Returns sample_tx)) (challengeId sample_request) gasLimit
       = Returns tx
     \<and> wait tx = Returns () \<and> hash tx = ''0x1234567890abcdef''
     \<and> verify_handler (env_of (says ''YES'') (Returns sample_tx)) sample_request
         = [CallEvaluator (evaluator_request t u),
            CallVerifySuccess (challengeId sample_request) gasLimit,
            TxIncluded ''0x1234567890abcdef'',
            Respond \<lparr>status = 200, body = Success ''0x1234567890abcdef''\<rparr>]"
proof -
  let ?e = "env_of (says ''YES'') (Returns sample_tx)"
  let ?r = "\<lparr>status = 200, body = Success ''0x1234567890abcdef''\<rparr>"
  have "verify_handler ?e sample_request
          = CallEvaluator (evaluator_request ''Run 5km'' ''data:image/jpeg;base64,/9j/4AAQ'')
            # commit ?e (challengeId sample_request)"
    using sample_request_passes race_says read_answer_completion verdict_YES
    by (rule approved_run)
  then have "?r \<in> set (responses (verify_handler ?e sample_request))"
    by (simp add: commit_def env_of_def sample_tx_def)
  moreover have "body ?r = Success ''0x1234567890abcdef''" by simp
  ultimately show ?thesis by (rule success_only_after_inclusion)
qed

subsection \<open>C10: the image reference\<close>

text \<open>
  C10. Any non-empty string passes the tests on \<^verbatim>\<open>imageUrl\<close>: it is truthy and
  its type is string, and nothing else is tested. When the other two fields pass as
  well, the request sent to the evaluator carries that very string as its image
  reference.
\<close>

theorem imageUrl_any_nonempty_string:
  assumes "imageUrl req = JString u" and "u \<noteq> []"
    and "truthy (challengeId req)" and "ToNumber (challengeId req) = Inr n" and "\<not> isNaN n"
    and "title req = JString t" and "t \<noteq> []" and "length t \<le> 500"
  shows "truthy (imageUrl req) \<and> typeof (imageUrl req) = T_string
    \<and> validate req = Passed t u
    \<and> evaluator_calls (verify_handler e req) = [evaluator_request t u]
    \<and> image_url (evaluator_request t u) = u"
proof (intro conjI)
  show "truthy (imageUrl req)" using assms(1,2) by simp
  show "typeof (imageUrl req) = T_string" using assms(1) by simp
  show v: "validate req = Passed t u"
    using assms by (simp add: validate_Passed_iff)
  show "evaluator_calls (verify_handler e req) = [evaluator_request t u]"
    by (simp add: evaluator_calls_handler v)
  show "image_url (evaluator_request t u) = u"
    by (simp add: evaluator_request_def)
qed

theorem imageUrl_any_nonempty_string_witness:
  "validate not_a_url_request = Passed ''Run 5km'' ''not a url''
   \<and> evaluator_calls (verify_handler (env_of (says ''NO'') Hangs) not_a_url_request)
       = [evaluator_request ''Run 5km'' ''not a url'']
   \<and> image_url (evaluator_request ''Run 5km'' ''not a url'') = ''not a url''"
proof -
  have "imageUrl not_a_url_request = JString ''not a url''" "''not a url'' \<noteq> []"
    "truthy (challengeId not_a_url_request)"
    "ToNumber (challengeId not_a_url_request) = Inr (Finite 42)" "\<not> isNaN (Finite 42)"
    "title not_a_url_request = JString ''Run 5km''" "''Run 5km'' \<noteq> []"
    "length ''Run 5km'' \<le> 500"
    by (simp_all add: not_a_url_request_def isNaN_def)
  from imageUrl_any_nonempty_string [OF this, of "env_of (says ''NO'') Hangs"]
  show ?thesis by simp
qed

end
